theory Spec2Isabelle
  imports Main "HOL-Library.Sublist"
begin

text \<open>
  The USB flasher of backend.py and gui.py: \<open>FlashUtility\<close>, which downloads, unpacks,
  hashes and writes images by calling the operating system, and the operations of
  \<open>VentoyFlasherGUI\<close> that drive it. What the operating system, the network and the
  libraries answer is given by an environment; the file system, the widgets and the
  catalogue of images are the state that every operation takes and returns.
\<close>

section \<open>Python strings and paths\<close>

text \<open>
  Strings are lists of characters, and so are the bytes of a file. The string helpers
  below are the methods of Python's \<open>str\<close> that the program calls, on ASCII text:
  \<open>strip()\<close>, \<open>split()\<close>, \<open>lower()\<close>, \<open>endswith\<close>, \<open>in\<close>, and the functions of
  \<open>os.path\<close> on a POSIX host (\<open>posixpath\<close>).
\<close>

definition is_space :: "char \<Rightarrow> bool" where
  "is_space c = (c \<in> set [CHR 0x09, CHR 0x0A, CHR 0x0B, CHR 0x0C, CHR 0x0D,
                            CHR 0x1C, CHR 0x1D, CHR 0x1E, CHR 0x1F, CHR 0x20])"

definition py_strip :: "string \<Rightarrow> string" where
  "py_strip s = rev (dropWhile is_space (rev (dropWhile is_space s)))"

text \<open>\<open>s.split()\<close>: the maximal runs of non-whitespace characters, in order.\<close>

fun split_ws :: "string \<Rightarrow> string \<Rightarrow> string list" where
  "split_ws cur [] = (if cur = [] then [] else [cur])"
| "split_ws cur (c # cs) =
     (if is_space c then (if cur = [] then split_ws [] cs else cur # split_ws [] cs)
      else split_ws (cur @ [c]) cs)"

definition py_split :: "string \<Rightarrow> string list" where
  "py_split s = split_ws [] s"

definition lower_char :: "char \<Rightarrow> char" where
  "lower_char c =
     (let n = (of_char c :: nat) in if 65 \<le> n \<and> n \<le> 90 then char_of (n + 32) else c)"

definition py_lower :: "string \<Rightarrow> string" where
  "py_lower s = map lower_char s"

definition endswith :: "string \<Rightarrow> string \<Rightarrow> bool" where
  "endswith s suf = suffix suf s"

definition py_in :: "string \<Rightarrow> string \<Rightarrow> bool" where
  "py_in needle s = sublist needle s"

definition path_join :: "string \<Rightarrow> string \<Rightarrow> string" where
  "path_join a b =
     (if prefix ''/'' b then b
      else if a = [] \<or> suffix ''/'' a then a @ b
      else a @ ''/'' @ b)"

definition basename :: "string \<Rightarrow> string" where
  "basename p = rev (takeWhile (\<lambda>c. c \<noteq> CHR ''/'') (rev p))"

text \<open>\<open>str(n)\<close> for an integer, as an f-string prints a status code.\<close>

fun digits :: "nat \<Rightarrow> string" where
  "digits n = (if n < 10 then [char_of (48 + n)] else digits (n div 10) @ [char_of (48 + n mod 10)])"

definition py_str :: "int \<Rightarrow> string" where
  "py_str i = (if i < 0 then ''-'' @ digits (nat (- i)) else digits (nat i))"

section \<open>Values, exceptions, the world outside\<close>

datatype pyval = PyNone | PyBool bool | PyStr string

text \<open>Truth of a value in a condition, and \<open>str\<close> of a value in an f-string.\<close>

fun truthy :: "pyval \<Rightarrow> bool" where
  "truthy PyNone = False"
| "truthy (PyBool b) = b"
| "truthy (PyStr s) = (s \<noteq> [])"

fun str_of :: "pyval \<Rightarrow> string" where
  "str_of PyNone = ''None''"
| "str_of (PyBool b) = (if b then ''True'' else ''False'')"
| "str_of (PyStr s) = s"

datatype exn =
    IndexError
  | OSError string
  | StreamError string

fun exn_text :: "exn \<Rightarrow> string" where
  "exn_text IndexError = ''list index out of range''"
| "exn_text (OSError m) = m"
| "exn_text (StreamError m) = m"

text \<open>The outcome of a call: it returns a value or an exception leaves it.\<close>

datatype 'a result = Return 'a | Raise exn

datatype node = Dir | File string

text \<open>
  What the program hands to the world outside, in order: every message given to the
  logger with its level, every shell command given to \<open>subprocess.run\<close>, every HTTP
  request, every recursive delete and every file copy.
\<close>

datatype event =
    Logged int string
  | Exec string
  | HttpGet string
  | HttpHead string
  | Rmtree string
  | Copy2 string string

datatype proc_outcome =
    Completed
  | CalledProcessError string
  | OtherError string

datatype response = Response (status_code: int) (reason: string) (body: string)
  (stream_error: "string option")

datatype get_outcome = RequestException string | Got response

datatype head_outcome = HeadStatus int | HeadError string

datatype rmtree_outcome = Removed | RmtreeFailed string "string list"

text \<open>
  The environment answers the calls the program cannot decide by itself: the host
  platform, the hash library, the shell, \<open>lsblk\<close>, the network, the archive libraries
  and the file system's refusals. A failure carries the text of its exception.
\<close>

record env =
  os_type :: string
  sha256_hex :: "string \<Rightarrow> string"
  run_shell :: "string \<Rightarrow> proc_outcome"
  run_lsblk :: "string + string"
  http_get :: "string \<Rightarrow> get_outcome"
  http_head :: "string \<Rightarrow> head_outcome"
  open_wb_error :: "string \<Rightarrow> string option"
  unpack_tgz :: "string \<Rightarrow> (string \<times> node) list \<times> string option"
  unpack_zip :: "string \<Rightarrow> (string \<times> node) list \<times> string option"
  rmtree :: "string \<Rightarrow> rmtree_outcome"
  copy2_error :: "string \<Rightarrow> string \<Rightarrow> string option"

record os_info =
  info_url :: string
  info_hash :: string

text \<open>
  The state: the file system, the trace, the attributes of \<open>FlashUtility\<close>, the module
  global \<open>PREDEFINED_OS\<close> (a dict: an association list in insertion order, its keys
  distinct) and the widgets of \<open>VentoyFlasherGUI\<close> that the operations read or write.
\<close>

record state =
  fs :: "string \<rightharpoonup> node"
  trace :: "event list"
  stdout :: "string list"
  log_callback :: bool
  temp_dir :: string
  PREDEFINED_OS :: "(string \<times> os_info) list"
  log_level :: int
  log_output :: "string list"
  status_pane :: "string list"
  selected_iso_path :: string
  dd_mode_radio :: bool
  ventoy_mode_radio :: bool
  usb_device_combo :: string
  ventoy_mount_input :: string
  reformat_combo :: string
  distro_list :: "string list"
  usb_details_output :: string

type_synonym outcome = "pyval result \<times> state"

abbreviation LOG_DEBUG :: int where "LOG_DEBUG \<equiv> 10"
abbreviation LOG_INFO :: int where "LOG_INFO \<equiv> 20"
abbreviation LOG_WARNING :: int where "LOG_WARNING \<equiv> 30"
abbreviation LOG_ERROR :: int where "LOG_ERROR \<equiv> 40"

definition emit :: "event \<Rightarrow> state \<Rightarrow> state" where
  "emit ev st = st\<lparr>trace := trace st @ [ev]\<rparr>"

definition path_exists :: "state \<Rightarrow> string \<Rightarrow> bool" where
  "path_exists st p = (fs st p \<noteq> None)"

section \<open>Logging\<close>

definition level_name :: "int \<Rightarrow> string" where
  "level_name level =
     (if level = LOG_DEBUG then ''DEBUG''
      else if level = LOG_INFO then ''INFO''
      else if level = LOG_WARNING then ''WARNING''
      else if level = LOG_ERROR then ''ERROR''
      else ''INFO'')"

text \<open>\<open>VentoyFlasherGUI.log_message\<close>: the pane shows a message at or above the level.\<close>

definition log_message :: "state \<Rightarrow> string \<Rightarrow> int \<Rightarrow> state" where
  "log_message st message level =
     (let st = emit (Logged level message) st in
      if level \<ge> log_level st
      then st\<lparr>log_output := log_output st @ [''['' @ level_name level @ ''] '' @ message]\<rparr>
      else st)"

text \<open>\<open>FlashUtility.log\<close>: the callback (the GUI's \<open>log_message\<close>) if there is one, else \<open>print\<close>.\<close>

definition log :: "state \<Rightarrow> string \<Rightarrow> int \<Rightarrow> state" where
  "log st message level =
     (if log_callback st then log_message st message level
      else (emit (Logged level message) st)\<lparr>stdout := stdout st @ [message]\<rparr>)"

section \<open>backend.py: FlashUtility\<close>

subsection \<open>compute_sha256\<close>

text \<open>
  A \<open>hashlib\<close> object is the message it has absorbed: \<open>update\<close> appends, and the hex
  digest is the environment's \<open>sha256_hex\<close> of the whole message.
\<close>

definition sha256_new :: string where
  "sha256_new = []"

definition sha256_update :: "string \<Rightarrow> string \<Rightarrow> string" where
  "sha256_update h chunk = h @ chunk"

text \<open>
  \<open>for chunk in iter(lambda: f.read(4096), b""): sha256_hash.update(chunk)\<close> on the
  unread rest of the file: a read returns up to 4096 bytes, and the empty read ends the loop.
\<close>

function read_loop :: "string \<Rightarrow> string \<Rightarrow> string" where
  "read_loop rest h =
     (let chunk = take 4096 rest in
      if chunk = [] then h else read_loop (drop 4096 rest) (sha256_update h chunk))"
  by pat_completeness auto
termination
  by (relation "measure (\<lambda>(rest, h). length rest)") auto

text \<open>The blocks that the loop hands to \<open>update\<close>, in order.\<close>

function read_chunks :: "string \<Rightarrow> string list" where
  "read_chunks rest =
     (let chunk = take 4096 rest in
      if chunk = [] then [] else chunk # read_chunks (drop 4096 rest))"
  by pat_completeness auto
termination
  by (relation "measure length") auto

definition open_error :: "string \<Rightarrow> node option \<Rightarrow> string" where
  "open_error p n =
     (case n of
        None \<Rightarrow> ''[Errno 2] No such file or directory: '' @ [CHR 0x27] @ p @ [CHR 0x27]
      | _ \<Rightarrow> ''[Errno 21] Is a directory: '' @ [CHR 0x27] @ p @ [CHR 0x27])"

definition compute_sha256 :: "env \<Rightarrow> state \<Rightarrow> string \<Rightarrow> outcome" where
  "compute_sha256 e st file_path =
     (case fs st file_path of
        Some (File content) \<Rightarrow> (Return (PyStr (sha256_hex e (read_loop content sha256_new))), st)
      | n \<Rightarrow> (Return PyNone, log st (''Error computing hash: '' @ open_error file_path n) LOG_ERROR))"

subsection \<open>get_usb_details\<close>

definition get_usb_details :: "env \<Rightarrow> string \<Rightarrow> pyval result" where
  "get_usb_details e usb_device =
     (if os_type e = ''Linux'' then
        (case run_lsblk e of
           Inr out \<Rightarrow> Return (PyStr (py_strip out))
         | Inl m \<Rightarrow> Return (PyStr (''Error retrieving USB details: '' @ m)))
      else if os_type e = ''Windows'' then Return (PyStr ''USB details not implemented for Windows.'')
      else Return (PyStr ''Unsupported OS.''))"

subsection \<open>run_dd_command\<close>

definition run_dd_command :: "env \<Rightarrow> state \<Rightarrow> string \<Rightarrow> string \<Rightarrow> outcome" where
  "run_dd_command e st iso_path usb_device =
     (if os_type e = ''Linux'' then
        (let command = ''sudo dd if='' @ iso_path @ '' of='' @ usb_device
                         @ '' bs=4M status=progress && sync'';
             st = log st (''Running dd command: '' @ command) LOG_INFO;
             st = emit (Exec command) st
         in case run_shell e command of
              Completed \<Rightarrow> (Return PyNone, log st ''Flashing complete using dd.'' LOG_INFO)
            | CalledProcessError m \<Rightarrow>
                (Return PyNone, log st (''Error during flashing: '' @ m) LOG_ERROR)
            | OtherError m \<Rightarrow> (Return PyNone, log st (''Unexpected error: '' @ m) LOG_ERROR))
      else if os_type e = ''Windows'' then
        (Return PyNone,
         log st ''dd command is not natively supported on Windows. Please install a dd equivalent.''
           LOG_WARNING)
      else (Return PyNone, log st ''Unsupported OS for dd flashing.'' LOG_ERROR))"

subsection \<open>download_file\<close>

text \<open>
  \<open>response.raise_for_status()\<close> of the requests library: an \<open>HTTPError\<close> (a
  \<open>RequestException\<close>) for a status from 400 to 599, nothing otherwise.
\<close>

definition raise_for_status :: "string \<Rightarrow> response \<Rightarrow> string option" where
  "raise_for_status url r =
     (if 400 \<le> status_code r \<and> status_code r < 500
      then Some (py_str (status_code r) @ '' Client Error: '' @ reason r @ '' for url: '' @ url)
      else if 500 \<le> status_code r \<and> status_code r < 600
      then Some (py_str (status_code r) @ '' Server Error: '' @ reason r @ '' for url: '' @ url)
      else None)"

text \<open>
  Only \<open>requests.RequestException\<close> is caught. A refusal to open the destination
  (\<open>OSError\<close>) and an error of the raw stream while the body is copied (raised by
  urllib3, with the bytes read so far already in the file) leave the function.
\<close>

definition download_file :: "env \<Rightarrow> state \<Rightarrow> string \<Rightarrow> string \<Rightarrow> outcome" where
  "download_file e st url dest_filename =
     (let dest_path = path_join (temp_dir st) dest_filename;
          st = log st (''Downloading from '' @ url @ '' to '' @ dest_path) LOG_INFO;
          st = emit (HttpGet url) st
      in case http_get e url of
           RequestException m \<Rightarrow>
             (Return PyNone, log st (''Error downloading file: '' @ m) LOG_ERROR)
         | Got r \<Rightarrow>
             (case raise_for_status url r of
                Some m \<Rightarrow> (Return PyNone, log st (''Error downloading file: '' @ m) LOG_ERROR)
              | None \<Rightarrow>
                  (case open_wb_error e dest_path of
                     Some m \<Rightarrow> (Raise (OSError m), st)
                   | None \<Rightarrow>
                       (let st = st\<lparr>fs := (fs st)(dest_path \<mapsto> File (body r))\<rparr> in
                        case stream_error r of
                          Some m \<Rightarrow> (Raise (StreamError m), st)
                        | None \<Rightarrow>
                            (Return (PyStr dest_path),
                             log st (''Download complete: '' @ dest_path) LOG_INFO)))))"

subsection \<open>extract_archive\<close>

definition write_members ::
  "string \<Rightarrow> (string \<times> node) list \<Rightarrow> (string \<rightharpoonup> node) \<Rightarrow> (string \<rightharpoonup> node)" where
  "write_members dir members f = fold (\<lambda>(name, n) g. g(path_join dir name \<mapsto> n)) members f"

text \<open>
  \<open>tarfile.open(...).extractall\<close> and \<open>zipfile.ZipFile(...).extractall\<close>: the library
  writes the members it could read and then, on a corrupt or truncated archive, raises.
\<close>

definition extractall ::
  "(string \<Rightarrow> (string \<times> node) list \<times> string option) \<Rightarrow> state \<Rightarrow> string \<Rightarrow> string
     \<Rightarrow> string option \<times> state" where
  "extractall unpack st archive_path extract_to =
     (case fs st archive_path of
        Some (File content) \<Rightarrow>
          (snd (unpack content),
           st\<lparr>fs := write_members extract_to (fst (unpack content)) (fs st)\<rparr>)
      | n \<Rightarrow> (Some (open_error archive_path n), st))"

definition extracted :: "string option \<times> state \<Rightarrow> outcome" where
  "extracted r =
     (case r of
        (None, st) \<Rightarrow> (Return (PyBool True), log st ''Extraction complete.'' LOG_INFO)
      | (Some m, st) \<Rightarrow> (Return (PyBool False), log st (''Extraction error: '' @ m) LOG_ERROR))"

definition extract_archive :: "env \<Rightarrow> state \<Rightarrow> string \<Rightarrow> string \<Rightarrow> outcome" where
  "extract_archive e st archive_path extract_to =
     (let st = log st (''Extracting '' @ archive_path @ '' to '' @ extract_to) LOG_INFO in
      if endswith archive_path ''.tar.gz''
      then extracted (extractall (unpack_tgz e) st archive_path extract_to)
      else if endswith archive_path ''.zip''
      then extracted (extractall (unpack_zip e) st archive_path extract_to)
      else (Return (PyBool False), log st ''Unsupported archive format.'' LOG_WARNING))"

subsection \<open>copy_iso_to_ventoy\<close>

definition copy_iso_to_ventoy :: "env \<Rightarrow> state \<Rightarrow> string \<Rightarrow> string \<Rightarrow> outcome" where
  "copy_iso_to_ventoy e st iso_path ventoy_mount_point =
     (if \<not> path_exists st ventoy_mount_point
      then (Return PyNone, log st ''Ventoy mount point does not exist.'' LOG_ERROR)
      else
        (let dest_path = path_join ventoy_mount_point (basename iso_path);
             st = log st (''Copying ISO from '' @ iso_path @ '' to '' @ dest_path) LOG_INFO;
             st = emit (Copy2 iso_path dest_path) st
         in case fs st iso_path of
              Some (File content) \<Rightarrow>
                (case copy2_error e iso_path dest_path of
                   None \<Rightarrow>
                     (Return PyNone,
                      log (st\<lparr>fs := (fs st)(dest_path \<mapsto> File content)\<rparr>)
                        ''ISO file successfully copied to Ventoy drive.'' LOG_INFO)
                 | Some m \<Rightarrow> (Return PyNone, log st (''Error copying ISO file: '' @ m) LOG_ERROR))
            | n \<Rightarrow>
                (Return PyNone,
                 log st (''Error copying ISO file: '' @ open_error iso_path n) LOG_ERROR)))"

subsection \<open>reformat_usb\<close>

definition reformat_usb :: "env \<Rightarrow> state \<Rightarrow> string \<Rightarrow> string \<Rightarrow> outcome" where
  "reformat_usb e st usb_device scheme =
     (if os_type e = ''Linux'' then
        (case (if py_lower scheme = ''gpt''
               then Some (''sudo parted '' @ usb_device @ '' mklabel gpt'')
               else if py_lower scheme = ''mbr''
               then Some (''sudo parted '' @ usb_device @ '' mklabel msdos'')
               else None) of
           None \<Rightarrow> (Return PyNone, log st ''Unknown partition scheme.'' LOG_ERROR)
         | Some command \<Rightarrow>
             (let st = log st (''Reformatting USB drive with command: '' @ command) LOG_INFO;
                  st = emit (Exec command) st
              in case run_shell e command of
                   Completed \<Rightarrow>
                     (Return PyNone, log st ''USB drive reformatted successfully.'' LOG_INFO)
                 | CalledProcessError m \<Rightarrow>
                     (Return PyNone, log st (''Error during reformatting: '' @ m) LOG_ERROR)
                 | OtherError m \<Rightarrow>
                     (Return PyNone, log st (''Unexpected error: '' @ m) LOG_ERROR)))
      else if os_type e = ''Windows'' then
        (Return PyNone,
         log st ''Reformatting USB drive is not implemented for Windows.'' LOG_WARNING)
      else (Return PyNone, log st ''Unsupported OS for reformatting.'' LOG_ERROR))"

subsection \<open>cleanup\<close>

definition under :: "string \<Rightarrow> string \<Rightarrow> bool" where
  "under d p = (p = d \<or> prefix (d @ ''/'') p)"

text \<open>
  \<open>shutil.rmtree\<close> deletes the entries below a directory and the directory last. When
  it raises, the entries it had deleted are gone and the directory itself is still there.
\<close>

definition remove_tree :: "string \<Rightarrow> (string \<rightharpoonup> node) \<Rightarrow> (string \<rightharpoonup> node)" where
  "remove_tree d f = (\<lambda>p. if under d p then None else f p)"

definition remove_some :: "string \<Rightarrow> string list \<Rightarrow> (string \<rightharpoonup> node) \<Rightarrow> (string \<rightharpoonup> node)" where
  "remove_some d gone f = (\<lambda>p. if p \<in> set gone \<and> p \<noteq> d \<and> under d p then None else f p)"

definition cleanup :: "env \<Rightarrow> state \<Rightarrow> outcome" where
  "cleanup e st =
     (if path_exists st (temp_dir st) then
        (let st = emit (Rmtree (temp_dir st)) st in
         case rmtree e (temp_dir st) of
           Removed \<Rightarrow>
             (Return PyNone,
              log (st\<lparr>fs := remove_tree (temp_dir st) (fs st)\<rparr>) ''Cleaned up temporary files.''
                LOG_DEBUG)
         | RmtreeFailed m gone \<Rightarrow>
             (Return PyNone,
              log (st\<lparr>fs := remove_some (temp_dir st) gone (fs st)\<rparr>)
                (''Error during cleanup: '' @ m) LOG_ERROR))
      else (Return PyNone, st))"

subsection \<open>install_ventoy\<close>

definition VENTOY_URLS :: "(string \<times> string) list" where
  "VENTOY_URLS =
     [(''Linux'',
       ''https://github.com/ventoy/Ventoy/releases/download/v1.0.90/ventoy-1.0.90-linux.tar.gz''),
      (''Windows'',
       ''https://github.com/ventoy/Ventoy/releases/download/v1.0.90/ventoy-1.0.90-windows.zip'')]"

text \<open>The tail that both platform branches share: log the command, run it, report.\<close>

definition run_installer :: "env \<Rightarrow> state \<Rightarrow> string \<Rightarrow> string \<Rightarrow> outcome" where
  "run_installer e st command done_message =
     (let st = log st (''Installing Ventoy with command: '' @ command) LOG_INFO;
          st = emit (Exec command) st
      in case run_shell e command of
           Completed \<Rightarrow> (Return PyNone, log st done_message LOG_INFO)
         | CalledProcessError m \<Rightarrow>
             (Return PyNone, log st (''Error during Ventoy installation: '' @ m) LOG_ERROR)
         | OtherError m \<Rightarrow>
             (Return PyNone,
              log st (''Unexpected error during Ventoy installation: '' @ m) LOG_ERROR))"

definition install_ventoy :: "env \<Rightarrow> state \<Rightarrow> string \<Rightarrow> outcome" where
  "install_ventoy e st usb_device =
     (case map_of VENTOY_URLS (os_type e) of
        None \<Rightarrow> (Return PyNone, log st ''No Ventoy download available for this OS.'' LOG_ERROR)
      | Some ventoy_url \<Rightarrow>
          (case download_file e st ventoy_url (basename ventoy_url) of
             (Raise x, st) \<Rightarrow>
               (Return PyNone,
                log st (''Unexpected error during Ventoy installation: '' @ exn_text x) LOG_ERROR)
           | (Return ventoy_archive, st) \<Rightarrow>
               if \<not> truthy ventoy_archive
               then (Return PyNone, log st ''Ventoy download failed.'' LOG_ERROR)
               else
                 (let ventoy_extract_path = path_join (temp_dir st) ''ventoy_extracted'' in
                  case fs st ventoy_extract_path of
                    Some (File c) \<Rightarrow>
                      (Return PyNone,
                       log st (''Unexpected error during Ventoy installation: [Errno 17] File exists: ''
                                 @ [CHR 0x27] @ ventoy_extract_path @ [CHR 0x27]) LOG_ERROR)
                  | _ \<Rightarrow>
                      (case extract_archive e (st\<lparr>fs := (fs st)(ventoy_extract_path \<mapsto> Dir)\<rparr>)
                              (str_of ventoy_archive) ventoy_extract_path of
                         (Raise x, st) \<Rightarrow>
                           (Return PyNone,
                            log st (''Unexpected error during Ventoy installation: '' @ exn_text x)
                              LOG_ERROR)
                       | (Return ok, st) \<Rightarrow>
                           if \<not> truthy ok
                           then (Return PyNone, log st ''Ventoy extraction failed.'' LOG_ERROR)
                           else if os_type e = ''Linux'' then
                             (let ventoy_script = path_join ventoy_extract_path ''Ventoy2Disk.sh'' in
                              if \<not> path_exists st ventoy_script
                              then (Return PyNone,
                                    log st ''Ventoy installation script not found.'' LOG_ERROR)
                              else run_installer e st
                                     (''sudo sh '' @ ventoy_script @ '' -i '' @ usb_device @ '' -I'')
                                     ''Ventoy installation complete.'')
                           else if os_type e = ''Windows'' then
                             (let ventoy_exe = path_join ventoy_extract_path ''Ventoy2Disk.exe'' in
                              if \<not> path_exists st ventoy_exe
                              then (Return PyNone,
                                    log st ''Ventoy installation executable not found.'' LOG_ERROR)
                              else run_installer e st
                                     ([CHR 0x22] @ ventoy_exe @ [CHR 0x22] @ '' -i '' @ usb_device
                                        @ '' -I'')
                                     ''Ventoy installation complete on Windows.'')
                           else (Return PyNone,
                                 log st ''Unsupported OS for Ventoy installation.'' LOG_ERROR)))))"

section \<open>gui.py: VentoyFlasherGUI\<close>

text \<open>A statement after a call runs only if the call returned.\<close>

definition and_then :: "outcome \<Rightarrow> (pyval \<Rightarrow> state \<Rightarrow> outcome) \<Rightarrow> outcome" where
  "and_then r k = (case r of (Return v, st) \<Rightarrow> k v st | (Raise x, st) \<Rightarrow> (Raise x, st))"

definition validate_operation :: "state \<Rightarrow> string \<Rightarrow> state" where
  "validate_operation st target =
     log_message st (''Validating operation on target: '' @ target @ '' ... (not fully implemented)'')
       LOG_DEBUG"

subsection \<open>validate_os_links and update_iso_links\<close>

text \<open>\<open>PREDEFINED_OS.pop(os_name)\<close>, and the removal of the first list item with that text.\<close>

definition dict_pop :: "string \<Rightarrow> (string \<times> os_info) list \<Rightarrow> (string \<times> os_info) list" where
  "dict_pop os_name d = filter (\<lambda>(k, v). k \<noteq> os_name) d"

definition remove_option :: "string \<Rightarrow> state \<Rightarrow> state" where
  "remove_option os_name st =
     st\<lparr>PREDEFINED_OS := dict_pop os_name (PREDEFINED_OS st),
        distro_list := remove1 os_name (distro_list st)\<rparr>"

text \<open>The first loop of \<open>validate_os_links\<close>, over \<open>list(PREDEFINED_OS.items())\<close>.\<close>

fun check_links :: "env \<Rightarrow> (string \<times> os_info) list \<Rightarrow> state \<Rightarrow> string list \<Rightarrow> state \<times> string list" where
  "check_links e [] st to_remove = (st, to_remove)"
| "check_links e ((os_name, info) # rest) st to_remove =
     (case http_head e (info_url info) of
        HeadStatus code \<Rightarrow>
          (if code \<noteq> 200 then
             check_links e rest
               (log_message (emit (HttpHead (info_url info)) st)
                  (''Warning: URL for '' @ os_name @ '' returned status '' @ py_str code
                     @ ''. Removing option.'') LOG_WARNING)
               (to_remove @ [os_name])
           else check_links e rest (emit (HttpHead (info_url info)) st) to_remove)
      | HeadError m \<Rightarrow>
          check_links e rest
            (log_message (emit (HttpHead (info_url info)) st)
               (''Error validating URL for '' @ os_name @ '': '' @ m @ ''. Removing option.'')
               LOG_ERROR)
            (to_remove @ [os_name]))"

definition validate_os_links :: "env \<Rightarrow> state \<Rightarrow> state" where
  "validate_os_links e st =
     (case check_links e (PREDEFINED_OS st) st [] of
        (st, to_remove) \<Rightarrow> fold remove_option to_remove st)"

text \<open>The loop of \<open>update_iso_links\<close> removes an entry as soon as its check fails.\<close>

fun update_links :: "env \<Rightarrow> (string \<times> os_info) list \<Rightarrow> state \<Rightarrow> state" where
  "update_links e [] st = st"
| "update_links e ((os_name, info) # rest) st =
     (case http_head e (info_url info) of
        HeadStatus code \<Rightarrow>
          (if code \<noteq> 200 then
             update_links e rest
               (remove_option os_name
                  (log_message (emit (HttpHead (info_url info)) st)
                     (''Link for '' @ os_name @ '' returned status '' @ py_str code
                        @ ''. Removing option.'') LOG_WARNING))
           else update_links e rest (emit (HttpHead (info_url info)) st))
      | HeadError m \<Rightarrow>
          update_links e rest
            (remove_option os_name
               (log_message (emit (HttpHead (info_url info)) st)
                  (''Error validating link for '' @ os_name @ '': '' @ m @ ''. Removing option.'')
                  LOG_ERROR)))"

definition update_iso_links :: "env \<Rightarrow> state \<Rightarrow> state" where
  "update_iso_links e st =
     (let st = log_message st ''Updating ISO links...'' LOG_INFO;
          st = update_links e (PREDEFINED_OS st) st
      in log_message st ''ISO links update complete.'' LOG_INFO)"

subsection \<open>select_distro\<close>

definition select_distro :: "env \<Rightarrow> state \<Rightarrow> string \<Rightarrow> outcome" where
  "select_distro e st os_name =
     (case map_of (PREDEFINED_OS st) os_name of
        None \<Rightarrow> (Return PyNone, st)
      | Some info \<Rightarrow>
          and_then
            (download_file e
               (log_message st
                  (''Downloading '' @ os_name @ '' ISO from '' @ info_url info @ ''...'') LOG_INFO)
               (info_url info) (os_name @ ''.iso''))
            (\<lambda>iso_path st.
               if truthy iso_path then
                 (Return PyNone,
                  log_message (st\<lparr>selected_iso_path := str_of iso_path\<rparr>)
                    (os_name @ '' ISO downloaded and selected: '' @ str_of iso_path) LOG_INFO)
               else
                 (Return PyNone,
                  log_message st (''Failed to download '' @ os_name @ '' ISO.'') LOG_ERROR)))"

subsection \<open>flash_usb\<close>

text \<open>
  \<open>self.usb_device_combo.currentText().strip().split()[0]\<close>: the first token, and an
  \<open>IndexError\<close> when there is none.
\<close>

definition first_token :: "string \<Rightarrow> string result" where
  "first_token text =
     (case py_split (py_strip text) of [] \<Rightarrow> Raise IndexError | tok # _ \<Rightarrow> Return tok)"

definition flash_usb :: "env \<Rightarrow> state \<Rightarrow> outcome" where
  "flash_usb e st =
     (if selected_iso_path st = []
      then (Return PyNone, log_message st ''Please select an ISO file first.'' LOG_WARNING)
      else if dd_mode_radio st then
        (case first_token (usb_device_combo st) of
           Raise x \<Rightarrow> (Raise x, st)
         | Return usb_device \<Rightarrow>
             if usb_device = []
             then (Return PyNone,
                   log_message st ''Please select the USB device from the dropdown.'' LOG_WARNING)
             else
               and_then
                 (run_dd_command e (log_message st ''Starting dd flashing process...'' LOG_INFO)
                    (selected_iso_path st) usb_device)
                 (\<lambda>_ st. (Return PyNone, validate_operation st usb_device)))
      else if ventoy_mode_radio st then
        (let ventoy_mount = py_strip (ventoy_mount_input st) in
         if ventoy_mount = []
         then (Return PyNone,
               log_message st
                 (''Please specify the Ventoy USB mount point (e.g., E:'' @ [CHR 0x5C]
                    @ '' or /mnt/ventoy).'') LOG_WARNING)
         else
           and_then
             (copy_iso_to_ventoy e (log_message st ''Copying ISO file to Ventoy drive...'' LOG_INFO)
                (selected_iso_path st) ventoy_mount)
             (\<lambda>_ st. (Return PyNone, validate_operation st ventoy_mount)))
      else (Return PyNone, log_message st ''Unknown flashing mode selected.'' LOG_ERROR))"

subsection \<open>install_ventoy\<close>

definition gui_install_ventoy :: "env \<Rightarrow> state \<Rightarrow> outcome" where
  "gui_install_ventoy e st =
     (if dd_mode_radio st
      then (Return PyNone,
            log_message st
              ''Ventoy installation is only available in Ventoy mode. Please select Ventoy Mode.''
              LOG_WARNING)
      else
        (let ventoy_target = py_strip (ventoy_mount_input st) in
         if ventoy_target = []
         then (Return PyNone,
               log_message st ''Please specify the Ventoy USB mount point or device identifier.''
                 LOG_WARNING)
         else
           and_then
             (install_ventoy e (log_message st ''Starting Ventoy installation...'' LOG_INFO)
                ventoy_target)
             (\<lambda>_ st. (Return PyNone, st))))"

subsection \<open>reformat_usb, get_usb_details\<close>


definition gui_get_usb_details :: "env \<Rightarrow> state \<Rightarrow> outcome" where
  "gui_get_usb_details e st =
     (case first_token (usb_device_combo st) of
        Raise x \<Rightarrow> (Raise x, st)
      | Return usb_device \<Rightarrow>
          if usb_device = []
          then (Return PyNone, log_message st ''Please select a USB device first.'' LOG_WARNING)
          else
            (case get_usb_details e usb_device of
               Raise x \<Rightarrow> (Raise x, st)
             | Return details \<Rightarrow> (Return PyNone, st\<lparr>usb_details_output := str_of details\<rparr>)))"

subsection \<open>validate_iso\<close>

text \<open>The loop over \<open>PREDEFINED_OS.items()\<close> stops at the first name found in the file name.\<close>

fun find_os :: "(string \<times> os_info) list \<Rightarrow> string \<Rightarrow> (string \<times> os_info) option" where
  "find_os [] iso_name = None"
| "find_os ((os_name, info) # rest) iso_name =
     (if py_in (py_lower os_name) (py_lower iso_name) then Some (os_name, info)
      else find_os rest iso_name)"

definition validate_iso :: "env \<Rightarrow> state \<Rightarrow> outcome" where
  "validate_iso e st =
     (if selected_iso_path st = []
      then (Return PyNone, log_message st ''Please select an ISO file first.'' LOG_WARNING)
      else
        and_then (compute_sha256 e st (selected_iso_path st))
          (\<lambda>computed_hash st.
             if \<not> truthy computed_hash
             then (Return PyNone, log_message st ''Failed to compute ISO hash.'' LOG_ERROR)
             else
               (case find_os (PREDEFINED_OS st) (basename (selected_iso_path st)) of
                  Some (os_name, info) \<Rightarrow>
                    if computed_hash = PyStr (info_hash info)
                    then (Return PyNone,
                          log_message st (''ISO validation passed for '' @ os_name @ ''.'') LOG_INFO)
                    else
                      (let st = log_message st
                                  (''WARNING: ISO hash for '' @ os_name
                                     @ '' does not match expected value!'') LOG_WARNING
                       in (Return PyNone,
                           st\<lparr>status_pane := status_pane st
                                @ [''WARNING: '' @ os_name @ '' ISO hash mismatch. Expected: ''
                                     @ info_hash info @ '', Got: '' @ str_of computed_hash]\<rparr>))
                | None \<Rightarrow>
                    (Return PyNone,
                     log_message st
                       ''No expected hash available for this ISO. Please verify manually.''
                       LOG_WARNING))))"

subsection \<open>closeEvent\<close>

text \<open>
  \<open>reply\<close> is the answer to the exit dialog. The value returned says whether the close
  event was accepted (\<open>event.accept()\<close>) or ignored.
\<close>

definition closeEvent :: "env \<Rightarrow> state \<Rightarrow> bool \<Rightarrow> outcome" where
  "closeEvent e st reply =
     (if reply then and_then (cleanup e st) (\<lambda>_ st. (Return (PyBool True), st))
      else (Return (PyBool False), st))"

section \<open>The shipped catalogue and a sample world\<close>

text \<open>The dict \<open>PREDEFINED_OS\<close> of backend.py as the module defines it.\<close>

definition PREDEFINED_OS_shipped :: "(string \<times> os_info) list" where
  "PREDEFINED_OS_shipped =
    [
     (''ParrotOS Home Edition'', \<lparr>info_url = ''https://cdimage.parrot.sh/parrot/iso/ParrotSecurity-4.11_amd64.iso'',
        info_hash = ''dummyhash_parrot''\<rparr>),
     (''NetBSD 9.3'', \<lparr>info_url = ''https://cdn.netbsd.org/pub/NetBSD/NetBSD-9.3/NetBSD-9.3-amd64.iso'',
        info_hash = ''dummyhash_netbsd''\<rparr>),
     (''Ubuntu Server 22.04'', \<lparr>info_url = ''https://releases.ubuntu.com/22.04/ubuntu-22.04-live-server-amd64.iso'',
        info_hash = ''dummyhash_ubuntu_server_22''\<rparr>),
     (''Debian 11 (Netinst)'', \<lparr>info_url = ''https://cdimage.debian.org/debian-cd/current/amd64/iso-cd/debian-11.7.0-amd64-netinst.iso'',
        info_hash = ''dummyhash_debian''\<rparr>),
     (''Ubuntu 22.04 Desktop'', \<lparr>info_url = ''https://releases.ubuntu.com/22.04/ubuntu-22.04-desktop-amd64.iso'',
        info_hash = ''dummyhash_ubuntu_desktop_22''\<rparr>),
     (''Ubuntu Jammy Jellyfish'', \<lparr>info_url = ''https://releases.ubuntu.com/22.04/ubuntu-22.04-desktop-amd64.iso'',
        info_hash = ''dummyhash_ubuntu_jammy''\<rparr>),
     (''Fedora Workstation 37'', \<lparr>info_url = ''https://download.fedoraproject.org/pub/fedora/linux/releases/37/Workstation/x86_64/iso/Fedora-Workstation-Live-x86_64-37-1.6.iso'',
        info_hash = ''dummyhash_fedora''\<rparr>),
     (''OpenSUSE Leap 15.4'', \<lparr>info_url = ''https://download.opensuse.org/distribution/leap/15.4/iso/openSUSE-Leap-15.4-DVD-x86_64.iso'',
        info_hash = ''dummyhash_opensuse''\<rparr>),
     (''Arch Linux'', \<lparr>info_url = ''https://mirror.rackspace.com/archlinux/iso/latest/archlinux-x86_64.iso'',
        info_hash = ''dummyhash_arch''\<rparr>),
     (''AlmaLinux 9'', \<lparr>info_url = ''https://repo.almalinux.org/almalinux/9/isos/x86_64/AlmaLinux-9.0-x86_64-dvd1.iso'',
        info_hash = ''dummyhash_almalinux''\<rparr>),
     (''Pop!_OS 22.04'', \<lparr>info_url = ''https://pop-iso.sfo2.cdn.digitaloceanspaces.com/22.04/Pop_OS_22.04_amd64_intel_60.iso'',
        info_hash = ''dummyhash_popos''\<rparr>),
     (''Puppy Linux 9.5'', \<lparr>info_url = ''https://distro.ibiblio.org/puppylinux/puppy-9.5/puppy-9.5_2019-08-14.iso'',
        info_hash = ''dummyhash_puppy''\<rparr>),
     (''Linux Mint 21'', \<lparr>info_url = ''https://mirrors.edge.kernel.org/linuxmint/stable/21/linuxmint-21-cinnamon-64bit.iso'',
        info_hash = ''dummyhash_mint''\<rparr>),
     (''Tiny Core Linux 12.1'', \<lparr>info_url = ''http://tinycorelinux.net/12.x/x86/release/TinyCorePure64-12.1.iso'',
        info_hash = ''dummyhash_tinycore''\<rparr>),
     (''Kali Linux 2022.4'', \<lparr>info_url = ''https://cdimage.kali.org/kali-2022.4/kali-linux-2022.4-installer-amd64.iso'',
        info_hash = ''dummyhash_kali''\<rparr>),
     (''Ubuntu 20.04 LTS Desktop'', \<lparr>info_url = ''https://releases.ubuntu.com/20.04/ubuntu-20.04.5-desktop-amd64.iso'',
        info_hash = ''dummyhash_ubuntu20_desktop''\<rparr>),
     (''Ubuntu 20.04 LTS Server'', \<lparr>info_url = ''https://releases.ubuntu.com/20.04/ubuntu-20.04-live-server-amd64.iso'',
        info_hash = ''dummyhash_ubuntu20_server''\<rparr>),
     (''Ubuntu Minimal 20.04'', \<lparr>info_url = ''https://cdimage.ubuntu.com/ubuntu-minimal/releases/20.04/release/ubuntu-minimal-20.04.5-amd64.iso'',
        info_hash = ''dummyhash_ubuntu_minimal''\<rparr>)
    ]"

text \<open>The shell commands that a run has handed to \<open>subprocess.run\<close>, and its file copies.\<close>

definition execs :: "state \<Rightarrow> string list" where
  "execs st = List.map_filter (\<lambda>ev. case ev of Exec c \<Rightarrow> Some c | _ \<Rightarrow> None) (trace st)"


definition gets :: "state \<Rightarrow> string list" where
  "gets st = List.map_filter (\<lambda>ev. case ev of HttpGet u \<Rightarrow> Some u | _ \<Rightarrow> None) (trace st)"



text \<open>
  The check of one catalogue entry, as both revalidation loops make it: the origin counts
  as reachable when the HEAD request raises nothing and answers with status 200.
\<close>

definition link_ok :: "env \<Rightarrow> os_info \<Rightarrow> bool" where
  "link_ok e info = (http_head e (info_url info) = HeadStatus 200)"

text \<open>
  A Linux host on which every external call succeeds. The hash library is given at the
  three messages the examples hash: the digests are SHA-256 of \<open>abc\<close>, of 4097 bytes
  \<open>a\<close> and of the empty message.
\<close>

definition sample_sha256 :: "string \<Rightarrow> string" where
  "sample_sha256 m =
     (if m = ''abc'' then ''ba7816bf8f01cfea414140de5dae2223b00361a396177a9cb410ff61f20015ad''
      else if m = replicate 4097 (CHR ''a'')
      then ''4e369b5618643c3abddd027b650bfa54810be3b418028a7c9d82299a59d008e8''
      else ''e3b0c44298fc1c149afbf4c8996fb92427ae41e4649b934ca495991b7852b855'')"

definition sample_env :: env where
  "sample_env =
     \<lparr>os_type = ''Linux'',
      sha256_hex = sample_sha256,
      run_shell = (\<lambda>command. Completed),
      run_lsblk = Inr ''NAME FSTYPE SIZE TYPE MOUNTPOINT LABEL MODEL'',
      http_get = (\<lambda>u. Got (Response 200 ''OK'' ''abc'' None)),
      http_head = (\<lambda>u. HeadStatus 200),
      open_wb_error = (\<lambda>p. None),
      unpack_tgz = (\<lambda>content. ([(''Ventoy2Disk.sh'', File ''#!/bin/sh'')], None)),
      unpack_zip = (\<lambda>content. ([(''Ventoy2Disk.exe'', File ''MZ'')], None)),
      rmtree = (\<lambda>p. Removed),
      copy2_error = (\<lambda>a b. None)\<rparr>"

text \<open>
  The GUI in dd mode after the user has picked a local image with the file dialog and
  typed the device. An earlier click on \<open>Arch Linux\<close> in the list has left its download
  under the temporary directory, beside the Ventoy archive.
\<close>

definition sample_state :: state where
  "sample_state =
     \<lparr>fs = [''/tmp/ventoy_k3x9'' \<mapsto> Dir,
            ''/tmp/ventoy_k3x9/Arch Linux.iso'' \<mapsto> File ''abc'',
            ''/tmp/ventoy_k3x9/ventoy-1.0.90-linux.tar.gz'' \<mapsto> File ''abc'',
            ''/home/user/ubuntu-22.04-desktop-amd64.iso'' \<mapsto> File ''abc''],
      trace = [],
      stdout = [],
      log_callback = True,
      temp_dir = ''/tmp/ventoy_k3x9'',
      PREDEFINED_OS = PREDEFINED_OS_shipped,
      log_level = LOG_INFO,
      log_output = [],
      status_pane = [],
      selected_iso_path = ''/home/user/ubuntu-22.04-desktop-amd64.iso'',
      dd_mode_radio = True,
      ventoy_mode_radio = False,
      usb_device_combo = ''/dev/sdb'',
      ventoy_mount_input = [],
      reformat_combo = ''GPT'',
      distro_list = map fst PREDEFINED_OS_shipped,
      usb_details_output = []\<rparr>"


text \<open>A network on which one mirror answers 404 and another refuses the connection.\<close>

definition flaky_net_env :: env where
  "flaky_net_env =
     sample_env\<lparr>http_head := (\<lambda>u.
        if u = ''http://tinycorelinux.net/12.x/x86/release/TinyCorePure64-12.1.iso''
        then HeadStatus 404
        else if u = ''https://cdimage.kali.org/kali-2022.4/kali-linux-2022.4-installer-amd64.iso''
        then HeadError ''Connection refused''
        else HeadStatus 200)\<rparr>"

text \<open>
  application.py holds the two classes in one file, with a catalogue of its own; its
  \<open>FlashUtility\<close>, \<open>flash_usb\<close> and \<open>validate_iso\<close> are those of backend.py and gui.py.
  The state below is the sample state in that program.
\<close>

definition PREDEFINED_OS_application :: "(string \<times> os_info) list" where
  "PREDEFINED_OS_application =
    [
     (''Ubuntu'', \<lparr>info_url = ''https://releases.ubuntu.com/22.04/ubuntu-22.04-desktop-amd64.iso'',
        info_hash = ''dummyhash_ubuntu''\<rparr>),
     (''Fedora'', \<lparr>info_url = ''https://download.fedoraproject.org/pub/fedora/linux/releases/37/Workstation/x86_64/iso/Fedora-Workstation-Live-x86_64-37-1.6.iso'',
        info_hash = ''dummyhash_fedora''\<rparr>),
     (''Debian'', \<lparr>info_url = ''https://cdimage.debian.org/debian-cd/current/amd64/iso-cd/debian-11.7.0-amd64-netinst.iso'',
        info_hash = ''dummyhash_debian''\<rparr>),
     (''Linux Mint'', \<lparr>info_url = ''https://mirrors.edge.kernel.org/linuxmint/stable/21/linuxmint-21-cinnamon-64bit.iso'',
        info_hash = ''dummyhash_linuxmint''\<rparr>),
     (''Pop!_OS'', \<lparr>info_url = ''https://pop-iso.sfo2.cdn.digitaloceanspaces.com/22.04/Pop_OS_22.04_amd64_intel_60.iso'',
        info_hash = ''dummyhash_popos''\<rparr>),
     (''Manjaro'', \<lparr>info_url = ''https://download.manjaro.org/xfce/21.3.7/manjaro-xfce-21.3.7-210915-linux54.iso'',
        info_hash = ''dummyhash_manjaro''\<rparr>),
     (''Arch Linux'', \<lparr>info_url = ''https://mirror.rackspace.com/archlinux/iso/latest/archlinux-x86_64.iso'',
        info_hash = ''dummyhash_arch''\<rparr>)
    ]"

definition application_state :: state where
  "application_state =
     sample_state\<lparr>PREDEFINED_OS := PREDEFINED_OS_application,
                  distro_list := map fst PREDEFINED_OS_application\<rparr>"

text \<open>
  A shell in which every command exits with status 1, as \<open>dd\<close> does when the device is
  absent or when the image path it is handed has a space in it.
\<close>

definition failing_shell_env :: env where
  "failing_shell_env =
     sample_env\<lparr>run_shell := (\<lambda>command.
        CalledProcessError (''Command '' @ [CHR 0x27] @ command @ [CHR 0x27]
                              @ '' returned non-zero exit status 1.''))\<rparr>"

section \<open>Facts about logging and strings\<close>

declare read_loop.simps [simp del] read_chunks.simps [simp del]

lemma emit_fields [simp]:
  "trace (emit ev st) = trace st @ [ev]"
  "fs (emit ev st) = fs st"
  "stdout (emit ev st) = stdout st"
  "log_callback (emit ev st) = log_callback st"
  "temp_dir (emit ev st) = temp_dir st"
  "PREDEFINED_OS (emit ev st) = PREDEFINED_OS st"
  "log_level (emit ev st) = log_level st"
  "log_output (emit ev st) = log_output st"
  "status_pane (emit ev st) = status_pane st"
  "selected_iso_path (emit ev st) = selected_iso_path st"
  "dd_mode_radio (emit ev st) = dd_mode_radio st"
  "ventoy_mode_radio (emit ev st) = ventoy_mode_radio st"
  "usb_device_combo (emit ev st) = usb_device_combo st"
  "ventoy_mount_input (emit ev st) = ventoy_mount_input st"
  "reformat_combo (emit ev st) = reformat_combo st"
  "distro_list (emit ev st) = distro_list st"
  "usb_details_output (emit ev st) = usb_details_output st"
  by (simp_all add: emit_def)

lemma log_message_fields [simp]:
  "trace (log_message st m l) = trace st @ [Logged l m]"
  "fs (log_message st m l) = fs st"
  "stdout (log_message st m l) = stdout st"
  "log_callback (log_message st m l) = log_callback st"
  "temp_dir (log_message st m l) = temp_dir st"
  "PREDEFINED_OS (log_message st m l) = PREDEFINED_OS st"
  "log_level (log_message st m l) = log_level st"
  "status_pane (log_message st m l) = status_pane st"
  "selected_iso_path (log_message st m l) = selected_iso_path st"
  "dd_mode_radio (log_message st m l) = dd_mode_radio st"
  "ventoy_mode_radio (log_message st m l) = ventoy_mode_radio st"
  "usb_device_combo (log_message st m l) = usb_device_combo st"
  "ventoy_mount_input (log_message st m l) = ventoy_mount_input st"
  "reformat_combo (log_message st m l) = reformat_combo st"
  "distro_list (log_message st m l) = distro_list st"
  "usb_details_output (log_message st m l) = usb_details_output st"
  by (simp_all add: log_message_def Let_def)

lemma log_fields [simp]:
  "trace (log st m l) = trace st @ [Logged l m]"
  "fs (log st m l) = fs st"
  "log_callback (log st m l) = log_callback st"
  "temp_dir (log st m l) = temp_dir st"
  "PREDEFINED_OS (log st m l) = PREDEFINED_OS st"
  "log_level (log st m l) = log_level st"
  "status_pane (log st m l) = status_pane st"
  "selected_iso_path (log st m l) = selected_iso_path st"
  "dd_mode_radio (log st m l) = dd_mode_radio st"
  "ventoy_mode_radio (log st m l) = ventoy_mode_radio st"
  "usb_device_combo (log st m l) = usb_device_combo st"
  "ventoy_mount_input (log st m l) = ventoy_mount_input st"
  "reformat_combo (log st m l) = reformat_combo st"
  "distro_list (log st m l) = distro_list st"
  "usb_details_output (log st m l) = usb_details_output st"
  by (simp_all add: log_def)

lemma execs_simps [simp]:
  "execs (log st m l) = execs st"
  "execs (log_message st m l) = execs st"
  "execs (emit (Exec c) st) = execs st @ [c]"
  "execs (emit (Logged l m) st) = execs st"
  "execs (emit (HttpGet u) st) = execs st"
  "execs (emit (HttpHead u) st) = execs st"
  "execs (emit (Rmtree p) st) = execs st"
  "execs (emit (Copy2 a b) st) = execs st"
  by (simp_all add: execs_def List.map_filter_def)

lemma split_ws_nonempty: "t \<in> set (split_ws cur s) \<Longrightarrow> t \<noteq> []"
  by (induction s arbitrary: cur) (auto split: if_splits)



lemma first_token_nonempty: "first_token text = Return tok \<Longrightarrow> tok \<noteq> []"
proof -
  assume "first_token text = Return tok"
  then have "tok \<in> set (split_ws [] (py_strip text))"
    by (auto simp: first_token_def py_split_def split: list.splits)
  then show ?thesis by (rule split_ws_nonempty)
qed

section \<open>The hash of a file\<close>


lemma read_loop_chunks: "read_loop rest h = foldl sha256_update h (read_chunks rest)"
proof (induction rest h rule: read_loop.induct)
  case (1 rest h)
  show ?case
  proof (cases "take 4096 rest = []")
    case True
    then show ?thesis
      by (subst read_loop.simps, subst read_chunks.simps) simp
  next
    case False
    then show ?thesis
      using "1.IH" [OF refl False]
      by (subst read_loop.simps, subst read_chunks.simps) (simp add: Let_def)
  qed
qed

lemma concat_read_chunks: "concat (read_chunks bs) = bs"
proof (induction bs rule: read_chunks.induct)
  case (1 rest)
  show ?case
  proof (cases "take 4096 rest = []")
    case True
    then show ?thesis by (subst read_chunks.simps) simp
  next
    case False
    then show ?thesis
      using "1.IH" [OF refl False]
      by (subst read_chunks.simps) (simp add: Let_def)
  qed
qed

lemma foldl_update: "foldl sha256_update h cs = h @ concat cs"
  by (induction cs arbitrary: h) (simp_all add: sha256_update_def)

lemma read_loop_all: "read_loop bs sha256_new = bs"
  by (simp add: read_loop_chunks foldl_update concat_read_chunks sha256_new_def)






section \<open>The device-detail query\<close>

text \<open>
  C10. \<open>get_usb_details\<close> does not read its device argument: on the same host it returns
  the same text for any two devices. On Linux that text is the stripped output of the
  \<open>lsblk\<close> listing of all block devices.
\<close>

theorem get_usb_details_ignores_device:
  "get_usb_details e d1 = get_usb_details e d2
   \<and> get_usb_details (e\<lparr>os_type := ''Linux'', run_lsblk := Inr out\<rparr>) d1
       = Return (PyStr (py_strip out))"
  by (simp add: get_usb_details_def)

section \<open>Starting a flash without a target\<close>




section \<open>Archives\<close>

lemma iso_suffix:
  "\<not> endswith ''/tmp/ventoy_k3x9/Arch Linux.iso'' ''.tar.gz''"
  "\<not> endswith ''/tmp/ventoy_k3x9/Arch Linux.iso'' ''.zip''"
  by (simp_all add: endswith_def suffix_to_prefix)

lemma tgz_suffix:
  "endswith ''/tmp/ventoy_k3x9/ventoy-1.0.90-linux.tar.gz'' ''.tar.gz''"
  by (simp add: endswith_def suffix_to_prefix)

text \<open>
  C5. When the archive path ends in neither \<open>.tar.gz\<close> nor \<open>.zip\<close>, \<open>extract_archive\<close>
  returns \<open>False\<close> and raises nothing, whatever the file system holds at that path: it
  logs the INFO line, then \<open>Unsupported archive format.\<close> at WARNING level as its last
  act, and writes no file.
\<close>

theorem unsupported_suffix_returns_false:
  assumes "\<not> endswith archive_path ''.tar.gz''" and "\<not> endswith archive_path ''.zip''"
  shows "extract_archive e st archive_path extract_to =
           (Return (PyBool False),
            log (log st (''Extracting '' @ archive_path @ '' to '' @ extract_to) LOG_INFO)
              ''Unsupported archive format.'' LOG_WARNING)
    \<and> last (trace (snd (extract_archive e st archive_path extract_to)))
         = Logged LOG_WARNING ''Unsupported archive format.''
    \<and> fs (snd (extract_archive e st archive_path extract_to)) = fs st"
  using assms by (simp add: extract_archive_def Let_def)

theorem unsupported_suffix_returns_false_witness:
  "\<not> endswith ''/tmp/ventoy_k3x9/Arch Linux.iso'' ''.tar.gz''
   \<and> \<not> endswith ''/tmp/ventoy_k3x9/Arch Linux.iso'' ''.zip''
   \<and> fst (extract_archive sample_env sample_state ''/tmp/ventoy_k3x9/Arch Linux.iso''
            ''/tmp/ventoy_k3x9/ventoy_extracted'') = Return (PyBool False)
   \<and> last (trace (snd (extract_archive sample_env sample_state ''/tmp/ventoy_k3x9/Arch Linux.iso''
            ''/tmp/ventoy_k3x9/ventoy_extracted'')))
       = Logged LOG_WARNING ''Unsupported archive format.''
   \<and> last (log_output (snd (extract_archive sample_env sample_state ''/tmp/ventoy_k3x9/Arch Linux.iso''
            ''/tmp/ventoy_k3x9/ventoy_extracted'')))
       = ''[WARNING] Unsupported archive format.''"
  using unsupported_suffix_returns_false [OF iso_suffix, of sample_env sample_state
      "''/tmp/ventoy_k3x9/ventoy_extracted''"] iso_suffix
  by (simp add: log_def log_message_def Let_def level_name_def sample_state_def emit_def)

text \<open>
  C6, as the code has it. A \<open>.tar.gz\<close> archive whose stream is truncated does not make
  \<open>extract_archive\<close> raise: the call returns \<open>False\<close>.
\<close>

theorem corrupt_archive_counterexample:
  "fst (extract_archive
          (sample_env\<lparr>unpack_tgz := (\<lambda>content.
              ([], Some ''Compressed file ended before the end-of-stream marker was reached''))\<rparr>)
          sample_state ''/tmp/ventoy_k3x9/ventoy-1.0.90-linux.tar.gz''
          ''/tmp/ventoy_k3x9/ventoy_extracted'')
     = Return (PyBool False)"
  using tgz_suffix
  by (simp add: extract_archive_def extractall_def extracted_def Let_def sample_state_def)

text \<open>
  C6, amended. When the path has a recognised suffix and the library fails on the
  archive's bytes, \<open>extract_archive\<close> catches the exception: it returns \<open>False\<close>, and its
  last act is to log \<open>Extraction error:\<close> with the exception's text at ERROR level.
\<close>

theorem failed_extraction_returns_false:
  assumes "endswith archive_path ''.tar.gz'' \<or> endswith archive_path ''.zip''"
    and "fs st archive_path = Some (File content)"
    and "snd ((if endswith archive_path ''.tar.gz'' then unpack_tgz e else unpack_zip e) content)
           = Some m"
  shows "fst (extract_archive e st archive_path extract_to) = Return (PyBool False)
    \<and> last (trace (snd (extract_archive e st archive_path extract_to)))
         = Logged LOG_ERROR (''Extraction error: '' @ m)"
  using assms
  by (auto simp: extract_archive_def extractall_def extracted_def Let_def)

theorem failed_extraction_returns_false_witness:
  "endswith ''/tmp/ventoy_k3x9/ventoy-1.0.90-linux.tar.gz'' ''.tar.gz''
   \<and> fs sample_state ''/tmp/ventoy_k3x9/ventoy-1.0.90-linux.tar.gz'' = Some (File ''abc'')
   \<and> fst (extract_archive
          (sample_env\<lparr>unpack_tgz := (\<lambda>content. ([], Some ''not a gzip file''))\<rparr>)
          sample_state ''/tmp/ventoy_k3x9/ventoy-1.0.90-linux.tar.gz''
          ''/tmp/ventoy_k3x9/ventoy_extracted'') = Return (PyBool False)
   \<and> last (trace (snd (extract_archive
          (sample_env\<lparr>unpack_tgz := (\<lambda>content. ([], Some ''not a gzip file''))\<rparr>)
          sample_state ''/tmp/ventoy_k3x9/ventoy-1.0.90-linux.tar.gz''
          ''/tmp/ventoy_k3x9/ventoy_extracted'')))
       = Logged LOG_ERROR ''Extraction error: not a gzip file''"
proof -
  have f: "fs sample_state ''/tmp/ventoy_k3x9/ventoy-1.0.90-linux.tar.gz'' = Some (File ''abc'')"
    by (simp add: sample_state_def)
  have s: "endswith ''/tmp/ventoy_k3x9/ventoy-1.0.90-linux.tar.gz'' ''.tar.gz''
             \<or> endswith ''/tmp/ventoy_k3x9/ventoy-1.0.90-linux.tar.gz'' ''.zip''"
    using tgz_suffix by simp
  have u: "snd ((if endswith ''/tmp/ventoy_k3x9/ventoy-1.0.90-linux.tar.gz'' ''.tar.gz''
                 then unpack_tgz (sample_env\<lparr>unpack_tgz := (\<lambda>content. ([], Some ''not a gzip file''))\<rparr>)
                 else unpack_zip (sample_env\<lparr>unpack_tgz := (\<lambda>content. ([], Some ''not a gzip file''))\<rparr>))
                ''abc'') = Some ''not a gzip file''"
    using tgz_suffix by simp
  show ?thesis
    using failed_extraction_returns_false [OF s f u, of "''/tmp/ventoy_k3x9/ventoy_extracted''"]
      f tgz_suffix
    by simp
qed

section \<open>Downloads\<close>

lemma gets_simps [simp]:
  "gets (log st m l) = gets st"
  "gets (log_message st m l) = gets st"
  "gets (emit (HttpGet u) st) = gets st @ [u]"
  "gets (st\<lparr>fs := f\<rparr>) = gets st"
  by (simp_all add: gets_def List.map_filter_def)

text \<open>An error of the stream while the body is copied leaves \<open>download_file\<close> uncaught.\<close>

lemma download_stream_error_raises:
  assumes "http_get e url = Got r" and "raise_for_status url r = None"
    and "open_wb_error e (path_join (temp_dir st) dest_filename) = None"
    and "stream_error r = Some m"
  shows "fst (download_file e st url dest_filename) = Raise (StreamError m)"
  using assms by (simp add: download_file_def Let_def)




section \<open>Primitives on a platform that lacks them\<close>

lemma execs_fs [simp]: "execs (st\<lparr>fs := f\<rparr>) = execs st"
  by (simp add: execs_def)

lemma run_installer_none: "fst (run_installer e st command done_message) = Return PyNone"
  by (simp add: run_installer_def Let_def split: proc_outcome.splits)

lemma install_ventoy_none: "fst (install_ventoy e st usb_device) = Return PyNone"
proof (cases "map_of VENTOY_URLS (os_type e)")
  case None
  then show ?thesis by (simp add: install_ventoy_def)
next
  case u: (Some u)
  obtain r st1 where d: "download_file e st u (basename u) = (r, st1)"
    by (cases "download_file e st u (basename u)")
  show ?thesis
  proof (cases r)
    case (Raise x)
    then show ?thesis by (simp add: install_ventoy_def u d)
  next
    case a: (Return a)
    show ?thesis
    proof (cases "truthy a")
      case False
      then show ?thesis by (simp add: install_ventoy_def u d a)
    next
      case True
      obtain r2 st2 where x:
        "extract_archive e
           (st1\<lparr>fs := (fs st1)(path_join (temp_dir st1) ''ventoy_extracted'' \<mapsto> Dir)\<rparr>)
           (str_of a) (path_join (temp_dir st1) ''ventoy_extracted'') = (r2, st2)"
        by (cases "extract_archive e
           (st1\<lparr>fs := (fs st1)(path_join (temp_dir st1) ''ventoy_extracted'' \<mapsto> Dir)\<rparr>)
           (str_of a) (path_join (temp_dir st1) ''ventoy_extracted'')")
      show ?thesis
      proof (cases "fs st1 (path_join (temp_dir st1) ''ventoy_extracted'')")
        case None
        then show ?thesis
          by (cases r2)
            (simp_all add: install_ventoy_def u d a True Let_def x run_installer_none)
      next
        case (Some n)
        then show ?thesis
          by (cases n; cases r2)
            (simp_all add: install_ventoy_def u d a True Let_def x run_installer_none)
      qed
    qed
  qed
qed

lemma run_dd_command_none: "fst (run_dd_command e st iso_path usb_device) = Return PyNone"
  by (simp add: run_dd_command_def Let_def split: proc_outcome.splits)

lemma reformat_usb_none: "fst (reformat_usb e st usb_device scheme) = Return PyNone"
  by (simp add: reformat_usb_def Let_def split: proc_outcome.splits)

lemma run_dd_command_unsupported:
  "os_type e \<noteq> ''Linux'' \<Longrightarrow>
   run_dd_command e st iso_path usb_device =
     (Return PyNone,
      if os_type e = ''Windows''
      then log st
             ''dd command is not natively supported on Windows. Please install a dd equivalent.''
             LOG_WARNING
      else log st ''Unsupported OS for dd flashing.'' LOG_ERROR)"
  by (simp add: run_dd_command_def)

lemma reformat_usb_unsupported:
  "os_type e \<noteq> ''Linux'' \<Longrightarrow>
   reformat_usb e st usb_device scheme =
     (Return PyNone,
      if os_type e = ''Windows''
      then log st ''Reformatting USB drive is not implemented for Windows.'' LOG_WARNING
      else log st ''Unsupported OS for reformatting.'' LOG_ERROR)"
  by (simp add: reformat_usb_def)

lemma install_ventoy_unsupported:
  "os_type e \<noteq> ''Linux'' \<Longrightarrow> os_type e \<noteq> ''Windows'' \<Longrightarrow>
   install_ventoy e st usb_device =
     (Return PyNone, log st ''No Ventoy download available for this OS.'' LOG_ERROR)"
  by (simp add: install_ventoy_def VENTOY_URLS_def)

text \<open>
  C8, as the code has it. What \<open>run_dd_command\<close> returns on Windows is what it returns
  on Linux after a successful write, and what it returns on macOS is what it returns on
  Linux when \<open>dd\<close> fails; the same holds for \<open>reformat_usb\<close>. The caller is handed
  \<open>None\<close> every time.
\<close>

theorem unsupported_platform_counterexample:
  "fst (run_dd_command (sample_env\<lparr>os_type := ''Windows''\<rparr>) sample_state
          ''/home/user/ubuntu-22.04-desktop-amd64.iso'' ''/dev/sdb'')
     = fst (run_dd_command sample_env sample_state
              ''/home/user/ubuntu-22.04-desktop-amd64.iso'' ''/dev/sdb'')
   \<and> fst (run_dd_command (sample_env\<lparr>os_type := ''Darwin''\<rparr>) sample_state
          ''/home/user/ubuntu-22.04-desktop-amd64.iso'' ''/dev/sdb'')
     = fst (run_dd_command failing_shell_env sample_state
              ''/home/user/ubuntu-22.04-desktop-amd64.iso'' ''/dev/sdb'')
   \<and> fst (reformat_usb (sample_env\<lparr>os_type := ''Windows''\<rparr>) sample_state ''/dev/sdb'' ''GPT'')
     = fst (reformat_usb sample_env sample_state ''/dev/sdb'' ''GPT'')"
  by (simp add: run_dd_command_def reformat_usb_def sample_env_def failing_shell_env_def Let_def
      py_lower_def lower_char_def)

text \<open>
  C8, amended. On a host that is not Linux, \<open>run_dd_command\<close> and \<open>reformat_usb\<close> run
  no command and only log one message, at WARNING level on Windows and at ERROR level on
  any other platform; on a host that is neither Linux nor Windows \<open>install_ventoy\<close> logs
  one message at ERROR level. All three return \<open>None\<close>, as they do on every platform
  and after every result, so the value returned does not tell an unsupported platform
  from a success or from a failure; only the logged text does.
\<close>

theorem unsupported_platform_only_logged:
  assumes "os_type e \<noteq> ''Linux''"
  shows "run_dd_command e st iso_path usb_device =
           (Return PyNone,
            if os_type e = ''Windows''
            then log st
                   ''dd command is not natively supported on Windows. Please install a dd equivalent.''
                   LOG_WARNING
            else log st ''Unsupported OS for dd flashing.'' LOG_ERROR)
    \<and> reformat_usb e st usb_device scheme =
           (Return PyNone,
            if os_type e = ''Windows''
            then log st ''Reformatting USB drive is not implemented for Windows.'' LOG_WARNING
            else log st ''Unsupported OS for reformatting.'' LOG_ERROR)
    \<and> (os_type e \<noteq> ''Windows'' \<longrightarrow>
          install_ventoy e st usb_device =
            (Return PyNone, log st ''No Ventoy download available for this OS.'' LOG_ERROR))
    \<and> execs (snd (run_dd_command e st iso_path usb_device)) = execs st
    \<and> execs (snd (reformat_usb e st usb_device scheme)) = execs st
    \<and> fst (run_dd_command e' st' iso_path' usb_device') = Return PyNone
    \<and> fst (reformat_usb e' st' usb_device' scheme') = Return PyNone
    \<and> fst (install_ventoy e' st' usb_device') = Return PyNone"
  using assms
  by (simp add: run_dd_command_unsupported reformat_usb_unsupported install_ventoy_unsupported
      run_dd_command_none reformat_usb_none install_ventoy_none)

theorem unsupported_platform_only_logged_witness:
  "os_type (sample_env\<lparr>os_type := ''Windows''\<rparr>) \<noteq> ''Linux''
   \<and> fst (run_dd_command (sample_env\<lparr>os_type := ''Windows''\<rparr>) sample_state
            ''/home/user/ubuntu-22.04-desktop-amd64.iso'' ''/dev/sdb'') = Return PyNone
   \<and> execs (snd (run_dd_command (sample_env\<lparr>os_type := ''Windows''\<rparr>) sample_state
            ''/home/user/ubuntu-22.04-desktop-amd64.iso'' ''/dev/sdb'')) = []
   \<and> last (trace (snd (run_dd_command (sample_env\<lparr>os_type := ''Windows''\<rparr>) sample_state
            ''/home/user/ubuntu-22.04-desktop-amd64.iso'' ''/dev/sdb'')))
       = Logged LOG_WARNING
           ''dd command is not natively supported on Windows. Please install a dd equivalent.''
   \<and> os_type (sample_env\<lparr>os_type := ''Darwin''\<rparr>) \<noteq> ''Windows''
   \<and> last (trace (snd (install_ventoy (sample_env\<lparr>os_type := ''Darwin''\<rparr>) sample_state
            ''/dev/sdb'')))
       = Logged LOG_ERROR ''No Ventoy download available for this OS.''"
proof -
  have w: "os_type (sample_env\<lparr>os_type := ''Windows''\<rparr>) \<noteq> ''Linux''" by simp
  have d: "os_type (sample_env\<lparr>os_type := ''Darwin''\<rparr>) \<noteq> ''Linux''" by simp
  have x: "execs sample_state = []"
    by (simp add: execs_def sample_state_def)
  show ?thesis
    using unsupported_platform_only_logged [OF w, of sample_state
        "''/home/user/ubuntu-22.04-desktop-amd64.iso''" "''/dev/sdb''"]
      unsupported_platform_only_logged [OF d, of sample_state _ "''/dev/sdb''"] w x
    by simp
qed

section \<open>Shutdown\<close>

text \<open>
  C3, as the code has it. The user confirms the exit and \<open>rmtree\<close> is refused: the close
  event is accepted and the temporary directory is still on disk.
\<close>

theorem cleanup_failure_counterexample:
  "fst (closeEvent
          (sample_env\<lparr>rmtree := (\<lambda>p. RmtreeFailed ''[Errno 13] Permission denied'' [])\<rparr>)
          sample_state True) = Return (PyBool True)
   \<and> path_exists (snd (closeEvent
          (sample_env\<lparr>rmtree := (\<lambda>p. RmtreeFailed ''[Errno 13] Permission denied'' [])\<rparr>)
          sample_state True)) (temp_dir sample_state)"
  by (simp add: closeEvent_def cleanup_def and_then_def Let_def path_exists_def remove_some_def
      sample_state_def)

text \<open>
  C3, amended. When the user confirms the exit dialog, \<open>closeEvent\<close> runs \<open>cleanup\<close> and
  accepts the event. If the temporary directory exists and \<open>rmtree\<close> succeeds, the
  directory and every path under it are gone afterwards. If \<open>rmtree\<close> raises, the
  directory is still there, and the last act is to log \<open>Error during cleanup:\<close> with the
  exception's text at ERROR level. When the user declines, nothing changes.
\<close>

theorem closeEvent_cleanup:
  "(path_exists st (temp_dir st) \<and> rmtree e (temp_dir st) = Removed \<longrightarrow>
      fst (closeEvent e st True) = Return (PyBool True)
      \<and> (\<forall>p. under (temp_dir st) p \<longrightarrow> \<not> path_exists (snd (closeEvent e st True)) p)
      \<and> \<not> path_exists (snd (closeEvent e st True)) (temp_dir st))
   \<and> (path_exists st (temp_dir st) \<and> rmtree e (temp_dir st) = RmtreeFailed m gone \<longrightarrow>
      fst (closeEvent e st True) = Return (PyBool True)
      \<and> path_exists (snd (closeEvent e st True)) (temp_dir st)
      \<and> last (trace (snd (closeEvent e st True))) = Logged LOG_ERROR (''Error during cleanup: '' @ m))
   \<and> closeEvent e st False = (Return (PyBool False), st)"
  by (simp add: closeEvent_def cleanup_def and_then_def Let_def path_exists_def remove_tree_def
      remove_some_def under_def)

theorem closeEvent_cleanup_witness:
  "path_exists sample_state (temp_dir sample_state)
   \<and> rmtree sample_env (temp_dir sample_state) = Removed
   \<and> fst (closeEvent sample_env sample_state True) = Return (PyBool True)
   \<and> \<not> path_exists (snd (closeEvent sample_env sample_state True)) ''/tmp/ventoy_k3x9''
   \<and> \<not> path_exists (snd (closeEvent sample_env sample_state True)) ''/tmp/ventoy_k3x9/Arch Linux.iso''
   \<and> closeEvent sample_env sample_state False = (Return (PyBool False), sample_state)
   \<and> rmtree (sample_env\<lparr>rmtree := (\<lambda>p. RmtreeFailed ''[Errno 13] Permission denied'' [])\<rparr>)
        (temp_dir sample_state) = RmtreeFailed ''[Errno 13] Permission denied'' []
   \<and> last (trace (snd (closeEvent
        (sample_env\<lparr>rmtree := (\<lambda>p. RmtreeFailed ''[Errno 13] Permission denied'' [])\<rparr>)
        sample_state True)))
       = Logged LOG_ERROR ''Error during cleanup: [Errno 13] Permission denied''"
proof -
  have p: "path_exists sample_state (temp_dir sample_state)"
    by (simp add: path_exists_def sample_state_def)
  have r: "rmtree sample_env (temp_dir sample_state) = Removed"
    by (simp add: sample_env_def)
  have t: "temp_dir sample_state = ''/tmp/ventoy_k3x9''"
    by (simp add: sample_state_def)
  have u: "under ''/tmp/ventoy_k3x9'' ''/tmp/ventoy_k3x9/Arch Linux.iso''"
    by (simp add: under_def)
  have q: "rmtree (sample_env\<lparr>rmtree := (\<lambda>p. RmtreeFailed ''[Errno 13] Permission denied'' [])\<rparr>)
        (temp_dir sample_state) = RmtreeFailed ''[Errno 13] Permission denied'' []"
    by simp
  show ?thesis
    using closeEvent_cleanup [of sample_state sample_env]
      closeEvent_cleanup [of sample_state
        "sample_env\<lparr>rmtree := (\<lambda>p. RmtreeFailed ''[Errno 13] Permission denied'' [])\<rparr>"
        "''[Errno 13] Permission denied''" "[]"]
      p r u q
    unfolding t by simp
qed

section \<open>Revalidation of the catalogue\<close>

lemma check_links_state:
  "PREDEFINED_OS (fst (check_links e xs st acc)) = PREDEFINED_OS st
   \<and> distro_list (fst (check_links e xs st acc)) = distro_list st"
  by (induction xs arbitrary: st acc) (auto split: head_outcome.splits)

lemma check_links_to_remove:
  "snd (check_links e xs st acc) = acc @ map fst (filter (\<lambda>(n, i). \<not> link_ok e i) xs)"
  by (induction xs arbitrary: st acc) (auto simp: link_ok_def split: head_outcome.splits)

lemma fold_remove_option:
  "PREDEFINED_OS (fold remove_option names st)
     = filter (\<lambda>(k, v). k \<notin> set names) (PREDEFINED_OS st)"
proof (induction names arbitrary: st)
  case Nil
  then show ?case by simp
next
  case (Cons n names)
  have p: "PREDEFINED_OS (remove_option n st) = dict_pop n (PREDEFINED_OS st)"
    by (simp add: remove_option_def)
  have "PREDEFINED_OS (fold remove_option (n # names) st)
          = PREDEFINED_OS (fold remove_option names (remove_option n st))"
    by simp
  also have "\<dots> = filter (\<lambda>(k, v). k \<notin> set names) (dict_pop n (PREDEFINED_OS st))"
    using Cons.IH [of "remove_option n st"] by (simp only: p)
  also have "\<dots> = filter (\<lambda>(k, v). k \<notin> set (n # names)) (PREDEFINED_OS st)"
    by (auto simp: dict_pop_def intro: filter_cong)
  finally show ?case .
qed

lemma update_links_catalog:
  "PREDEFINED_OS (update_links e xs st)
     = filter (\<lambda>(k, v). k \<notin> fst ` set (filter (\<lambda>(n, i). \<not> link_ok e i) xs)) (PREDEFINED_OS st)"
proof (induction xs arbitrary: st)
  case Nil
  then show ?case by simp
next
  case (Cons x xs)
  obtain n i where x: "x = (n, i)" by (cases x)
  show ?case
  proof (cases "link_ok e i")
    case True
    then show ?thesis
      by (simp add: x Cons.IH link_ok_def)
  next
    case False
    have "filter (\<lambda>(k, v). k \<notin> fst ` set (filter (\<lambda>(n, i). \<not> link_ok e i) xs))
            (dict_pop n (PREDEFINED_OS st))
          = filter (\<lambda>(k, v). k \<noteq> n \<and> k \<notin> fst ` set (filter (\<lambda>(n, i). \<not> link_ok e i) xs))
              (PREDEFINED_OS st)"
      by (auto simp: dict_pop_def intro: filter_cong)
    with False show ?thesis
      by (auto simp: x Cons.IH link_ok_def remove_option_def split: head_outcome.splits)
  qed
qed

lemma distinct_keys_filter:
  assumes "distinct (map fst xs)"
  shows "filter (\<lambda>(k, v). k \<notin> fst ` set (filter (\<lambda>(n, i). \<not> P i) xs)) xs
           = filter (\<lambda>(n, i). P i) xs"
proof (rule filter_cong [OF refl])
  fix x assume x: "x \<in> set xs"
  obtain k v where kv: "x = (k, v)" by (cases x)
  have "k \<in> fst ` set (filter (\<lambda>(n, i). \<not> P i) xs) \<longleftrightarrow> \<not> P v"
  proof
    assume "k \<in> fst ` set (filter (\<lambda>(n, i). \<not> P i) xs)"
    then obtain v' where "(k, v') \<in> set xs" and np: "\<not> P v'" by auto
    with assms x kv have "v' = v" by (metis eq_key_imp_eq_value)
    with np show "\<not> P v" by simp
  next
    assume "\<not> P v"
    with x kv show "k \<in> fst ` set (filter (\<lambda>(n, i). \<not> P i) xs)" by force
  qed
  then show "(case x of (k, v) \<Rightarrow> k \<notin> fst ` set (filter (\<lambda>(n, i). \<not> P i) xs))
               = (case x of (n, i) \<Rightarrow> P i)"
    by (simp add: kv)
qed

lemma map_of_filter_distinct:
  assumes "distinct (map fst xs)" and "(k, v) \<in> set xs"
  shows "map_of (filter (\<lambda>(n, i). P i) xs) k = (if P v then Some v else None)"
proof (cases "P v")
  case True
  have "distinct (map fst (filter (\<lambda>(n, i). P i) xs))"
    using assms(1) by (rule distinct_map_filter)
  moreover have "(k, v) \<in> set (filter (\<lambda>(n, i). P i) xs)"
    using assms(2) True by simp
  ultimately show ?thesis using True by simp
next
  case False
  have "k \<notin> fst ` set (filter (\<lambda>(n, i). P i) xs)"
  proof
    assume "k \<in> fst ` set (filter (\<lambda>(n, i). P i) xs)"
    then obtain v' where "(k, v') \<in> set xs" and p: "P v'" by auto
    with assms have "v' = v" by (metis eq_key_imp_eq_value)
    with p False show False by simp
  qed
  then show ?thesis using False by (simp add: map_of_eq_None_iff)
qed

lemma validate_os_links_catalog:
  "distinct (map fst (PREDEFINED_OS st)) \<Longrightarrow>
   PREDEFINED_OS (validate_os_links e st)
     = filter (\<lambda>(os_name, info). link_ok e info) (PREDEFINED_OS st)"
proof -
  assume d: "distinct (map fst (PREDEFINED_OS st))"
  obtain st1 names where c: "check_links e (PREDEFINED_OS st) st [] = (st1, names)"
    by (cases "check_links e (PREDEFINED_OS st) st []")
  have n: "names = map fst (filter (\<lambda>(n, i). \<not> link_ok e i) (PREDEFINED_OS st))"
    using check_links_to_remove [of e "PREDEFINED_OS st" st "[]"] c by simp
  have s: "PREDEFINED_OS st1 = PREDEFINED_OS st"
    using check_links_state [of e "PREDEFINED_OS st" st "[]"] c by simp
  show ?thesis
    using distinct_keys_filter [OF d, of "link_ok e"]
    by (simp add: validate_os_links_def c fold_remove_option s n)
qed

lemma update_iso_links_catalog:
  "distinct (map fst (PREDEFINED_OS st)) \<Longrightarrow>
   PREDEFINED_OS (update_iso_links e st)
     = filter (\<lambda>(os_name, info). link_ok e info) (PREDEFINED_OS st)"
  using distinct_keys_filter [of "PREDEFINED_OS st" "link_ok e"]
  by (simp add: update_iso_links_def Let_def update_links_catalog)

text \<open>
  C9. After a revalidation pass, by \<open>validate_os_links\<close> or by \<open>update_iso_links\<close>, the
  catalogue holds exactly the entries whose check succeeded (no exception, status 200), in
  their old order and unchanged: an entry whose check failed is no longer found under its
  name, an entry whose check succeeded is found with the URL and hash it had.
\<close>

theorem revalidation_prunes_unreachable:
  assumes "distinct (map fst (PREDEFINED_OS st))"
  shows "PREDEFINED_OS (validate_os_links e st)
           = filter (\<lambda>(os_name, info). link_ok e info) (PREDEFINED_OS st)
    \<and> PREDEFINED_OS (update_iso_links e st)
           = filter (\<lambda>(os_name, info). link_ok e info) (PREDEFINED_OS st)
    \<and> (\<forall>(os_name, info) \<in> set (PREDEFINED_OS st).
          map_of (PREDEFINED_OS (validate_os_links e st)) os_name
            = (if link_ok e info then Some info else None)
          \<and> map_of (PREDEFINED_OS (update_iso_links e st)) os_name
            = (if link_ok e info then Some info else None))"
  using assms map_of_filter_distinct [OF assms, of _ _ "link_ok e"]
  by (auto simp: validate_os_links_catalog update_iso_links_catalog)

lemma shipped_distinct: "distinct (map fst PREDEFINED_OS_shipped)"
  by code_simp

lemma shipped_filter:
  "map fst (filter (\<lambda>(os_name, info). link_ok flaky_net_env info) PREDEFINED_OS_shipped)
     = [''ParrotOS Home Edition'', ''NetBSD 9.3'', ''Ubuntu Server 22.04'', ''Debian 11 (Netinst)'',
        ''Ubuntu 22.04 Desktop'', ''Ubuntu Jammy Jellyfish'', ''Fedora Workstation 37'',
        ''OpenSUSE Leap 15.4'', ''Arch Linux'', ''AlmaLinux 9'', ''Pop!_OS 22.04'',
        ''Puppy Linux 9.5'', ''Linux Mint 21'', ''Ubuntu 20.04 LTS Desktop'',
        ''Ubuntu 20.04 LTS Server'', ''Ubuntu Minimal 20.04'']"
  by code_simp

theorem revalidation_prunes_unreachable_witness:
  "distinct (map fst (PREDEFINED_OS sample_state))
   \<and> map fst (PREDEFINED_OS (validate_os_links flaky_net_env sample_state))
     = [''ParrotOS Home Edition'', ''NetBSD 9.3'', ''Ubuntu Server 22.04'', ''Debian 11 (Netinst)'',
        ''Ubuntu 22.04 Desktop'', ''Ubuntu Jammy Jellyfish'', ''Fedora Workstation 37'',
        ''OpenSUSE Leap 15.4'', ''Arch Linux'', ''AlmaLinux 9'', ''Pop!_OS 22.04'',
        ''Puppy Linux 9.5'', ''Linux Mint 21'', ''Ubuntu 20.04 LTS Desktop'',
        ''Ubuntu 20.04 LTS Server'', ''Ubuntu Minimal 20.04'']
   \<and> PREDEFINED_OS (update_iso_links flaky_net_env sample_state)
     = PREDEFINED_OS (validate_os_links flaky_net_env sample_state)"
proof -
  have c: "PREDEFINED_OS sample_state = PREDEFINED_OS_shipped"
    by (simp add: sample_state_def)
  have d: "distinct (map fst (PREDEFINED_OS sample_state))"
    unfolding c by (rule shipped_distinct)
  show ?thesis
    using revalidation_prunes_unreachable [OF d, of flaky_net_env] d shipped_filter
    unfolding c by simp
qed


section \<open>Hash verification and flashing\<close>

lemma execs_status [simp]: "execs (st\<lparr>status_pane := x\<rparr>) = execs st"
  by (simp add: execs_def)

lemma execs_validate_operation [simp]: "execs (validate_operation st t) = execs st"
  by (simp add: validate_operation_def)

lemma run_dd_command_linux:
  "os_type e = ''Linux'' \<Longrightarrow>
   fst (run_dd_command e st iso_path usb_device) = Return PyNone
   \<and> execs (snd (run_dd_command e st iso_path usb_device))
       = execs st @ [''sudo dd if='' @ iso_path @ '' of='' @ usb_device
                       @ '' bs=4M status=progress && sync'']"
  by (simp add: run_dd_command_def Let_def split: proc_outcome.splits)

lemma flash_usb_dd_linux:
  assumes "os_type e = ''Linux''" and "selected_iso_path st \<noteq> []" and "dd_mode_radio st"
    and "first_token (usb_device_combo st) = Return usb_device"
  shows "fst (flash_usb e st) = Return PyNone
    \<and> execs (snd (flash_usb e st))
        = execs st @ [''sudo dd if='' @ selected_iso_path st @ '' of='' @ usb_device
                        @ '' bs=4M status=progress && sync'']"
proof -
  have ne: "usb_device \<noteq> []"
    using assms(4) by (rule first_token_nonempty)
  obtain r st1 where rd:
    "run_dd_command e (log_message st ''Starting dd flashing process...'' LOG_INFO)
       (selected_iso_path st) usb_device = (r, st1)"
    by (cases "run_dd_command e (log_message st ''Starting dd flashing process...'' LOG_INFO)
         (selected_iso_path st) usb_device")
  from run_dd_command_linux [OF assms(1),
      of "log_message st ''Starting dd flashing process...'' LOG_INFO" "selected_iso_path st"
        usb_device] rd
  have r: "r = Return PyNone"
    and x: "execs st1 = execs st @ [''sudo dd if='' @ selected_iso_path st @ '' of='' @ usb_device
                        @ '' bs=4M status=progress && sync'']"
    by simp_all
  show ?thesis
    using assms ne by (simp add: flash_usb_def rd r x and_then_def)
qed

text \<open>
  C1, amended. When \<open>validate_iso\<close> finds that the digest of the selected image differs
  from the expected hash of its catalogue entry, it logs a WARNING, appends the mismatch
  to the status pane and returns; it runs no command and changes nothing else. The
  mismatch does not stop a flash: \<open>flash_usb\<close> makes no hash check, and in dd mode on
  Linux with a device selected it runs the \<open>dd\<close> command on that image all the same.
\<close>

theorem mismatch_is_advisory:
  assumes "selected_iso_path st \<noteq> []"
    and "fs st (selected_iso_path st) = Some (File content)"
    and "sha256_hex e content \<noteq> []"
    and "find_os (PREDEFINED_OS st) (basename (selected_iso_path st)) = Some (os_name, info)"
    and "sha256_hex e content \<noteq> info_hash info"
  shows "validate_iso e st =
           (Return PyNone,
            (log_message st (''WARNING: ISO hash for '' @ os_name @ '' does not match expected value!'')
               LOG_WARNING)
            \<lparr>status_pane := status_pane st
               @ [''WARNING: '' @ os_name @ '' ISO hash mismatch. Expected: '' @ info_hash info
                    @ '', Got: '' @ sha256_hex e content]\<rparr>)
    \<and> execs (snd (validate_iso e st)) = execs st
    \<and> (os_type e = ''Linux'' \<and> dd_mode_radio st
          \<and> first_token (usb_device_combo st) = Return usb_device \<longrightarrow>
        fst (flash_usb e (snd (validate_iso e st))) = Return PyNone
        \<and> execs (snd (flash_usb e (snd (validate_iso e st))))
            = execs st @ [''sudo dd if='' @ selected_iso_path st @ '' of='' @ usb_device
                            @ '' bs=4M status=progress && sync''])"
proof -
  let ?st' = "(log_message st (''WARNING: ISO hash for '' @ os_name @ '' does not match expected value!'')
               LOG_WARNING)
            \<lparr>status_pane := status_pane st
               @ [''WARNING: '' @ os_name @ '' ISO hash mismatch. Expected: '' @ info_hash info
                    @ '', Got: '' @ sha256_hex e content]\<rparr>"
  have v: "validate_iso e st = (Return PyNone, ?st')"
    using assms
    by (simp add: validate_iso_def compute_sha256_def and_then_def read_loop_all Let_def)
  have x: "execs ?st' = execs st" by simp
  have f: "os_type e = ''Linux'' \<Longrightarrow> dd_mode_radio st \<Longrightarrow>
           first_token (usb_device_combo st) = Return usb_device \<Longrightarrow>
           fst (flash_usb e ?st') = Return PyNone
           \<and> execs (snd (flash_usb e ?st'))
               = execs st @ [''sudo dd if='' @ selected_iso_path st @ '' of='' @ usb_device
                            @ '' bs=4M status=progress && sync'']"
    using flash_usb_dd_linux [of e ?st' usb_device] assms(1) by simp
  show ?thesis
    using f by (simp add: v)
qed

lemma find_arch:
  "find_os PREDEFINED_OS_shipped (basename ''/tmp/ventoy_k3x9/Arch Linux.iso'')
     = Some (''Arch Linux'',
             \<lparr>info_url = ''https://mirror.rackspace.com/archlinux/iso/latest/archlinux-x86_64.iso'',
              info_hash = ''dummyhash_arch''\<rparr>)"
  by code_simp

lemma find_ubuntu:
  "find_os PREDEFINED_OS_application (basename ''/home/user/ubuntu-22.04-desktop-amd64.iso'')
     = Some (''Ubuntu'',
             \<lparr>info_url = ''https://releases.ubuntu.com/22.04/ubuntu-22.04-desktop-amd64.iso'',
              info_hash = ''dummyhash_ubuntu''\<rparr>)"
  by code_simp

lemma sample_first_token: "first_token ''/dev/sdb'' = Return ''/dev/sdb''"
  by code_simp

lemma application_fields:
  "selected_iso_path application_state = ''/home/user/ubuntu-22.04-desktop-amd64.iso''"
  "fs application_state ''/home/user/ubuntu-22.04-desktop-amd64.iso'' = Some (File ''abc'')"
  "PREDEFINED_OS application_state = PREDEFINED_OS_application"
  "dd_mode_radio application_state"
  "usb_device_combo application_state = ''/dev/sdb''"
  "status_pane application_state = []"
  "trace application_state = []"
  "log_output application_state = []"
  "log_level application_state = LOG_INFO"
  "log_callback application_state"
  by (simp_all add: application_state_def sample_state_def)

lemma sample_hash_abc:
  "sha256_hex sample_env ''abc''
     = ''ba7816bf8f01cfea414140de5dae2223b00361a396177a9cb410ff61f20015ad''"
  by (simp add: sample_env_def sample_sha256_def)

text \<open>
  C1, as the code has it. In application.py's program the user picks a local Ubuntu
  image whose digest is not the catalogue's hash: \<open>validate_iso\<close> reports the mismatch,
  and the flash that follows runs \<open>dd\<close> on the device and reports that the write is
  complete. In gui.py's program every name of the catalogue has a space in it, so an
  image that \<open>validate_iso\<close> can match has one too; there the flash after the reported
  mismatch still hands the \<open>dd\<close> command to the shell, where \<open>dd\<close> exits with an error.
\<close>

theorem flash_after_mismatch_counterexample:
  "status_pane (snd (validate_iso sample_env application_state))
     = [''WARNING: Ubuntu ISO hash mismatch. Expected: dummyhash_ubuntu, Got: ba7816bf8f01cfea414140de5dae2223b00361a396177a9cb410ff61f20015ad'']
   \<and> fst (flash_usb sample_env (snd (validate_iso sample_env application_state))) = Return PyNone
   \<and> execs (snd (flash_usb sample_env (snd (validate_iso sample_env application_state))))
     = [''sudo dd if=/home/user/ubuntu-22.04-desktop-amd64.iso of=/dev/sdb bs=4M status=progress && sync'']
   \<and> last (log_output (snd (flash_usb sample_env (snd (validate_iso sample_env application_state)))))
     = ''[INFO] Flashing complete using dd.''
   \<and> status_pane (snd (validate_iso failing_shell_env
         (sample_state\<lparr>selected_iso_path := ''/tmp/ventoy_k3x9/Arch Linux.iso''\<rparr>)))
     = [''WARNING: Arch Linux ISO hash mismatch. Expected: dummyhash_arch, Got: ba7816bf8f01cfea414140de5dae2223b00361a396177a9cb410ff61f20015ad'']
   \<and> execs (snd (flash_usb failing_shell_env (snd (validate_iso failing_shell_env
         (sample_state\<lparr>selected_iso_path := ''/tmp/ventoy_k3x9/Arch Linux.iso''\<rparr>)))))
     = [''sudo dd if=/tmp/ventoy_k3x9/Arch Linux.iso of=/dev/sdb bs=4M status=progress && sync'']"
proof -
  let ?ua = "(log_message application_state
                 ''WARNING: ISO hash for Ubuntu does not match expected value!'' LOG_WARNING)
       \<lparr>status_pane := [''WARNING: Ubuntu ISO hash mismatch. Expected: dummyhash_ubuntu, Got: ba7816bf8f01cfea414140de5dae2223b00361a396177a9cb410ff61f20015ad'']\<rparr>"
  have va: "validate_iso sample_env application_state = (Return PyNone, ?ua)"
    using find_ubuntu sample_hash_abc
    by (simp add: validate_iso_def compute_sha256_def and_then_def read_loop_all Let_def
        application_fields)
  have l: "os_type sample_env = ''Linux''" by (simp add: sample_env_def)
  have a1: "selected_iso_path ?ua \<noteq> []" by (simp add: application_fields)
  have a2: "dd_mode_radio ?ua" by (simp add: application_fields)
  have a3: "first_token (usb_device_combo ?ua) = Return ''/dev/sdb''"
    using sample_first_token by (simp add: application_fields)
  have ax: "execs ?ua = []"
    by (simp add: execs_def List.map_filter_def application_fields)
  have as: "selected_iso_path ?ua = ''/home/user/ubuntu-22.04-desktop-amd64.iso''"
    by (simp add: application_fields)
  have al: "last (log_output (snd (flash_usb sample_env ?ua))) = ''[INFO] Flashing complete using dd.''"
    using a3
    by (simp add: flash_usb_def and_then_def run_dd_command_def Let_def validate_operation_def
        log_def log_message_def emit_def level_name_def application_fields sample_env_def)
  let ?st = "sample_state\<lparr>selected_iso_path := ''/tmp/ventoy_k3x9/Arch Linux.iso''\<rparr>"
  let ?ub = "(log_message ?st
                 ''WARNING: ISO hash for Arch Linux does not match expected value!'' LOG_WARNING)
       \<lparr>status_pane := [''WARNING: Arch Linux ISO hash mismatch. Expected: dummyhash_arch, Got: ba7816bf8f01cfea414140de5dae2223b00361a396177a9cb410ff61f20015ad'']\<rparr>"
  have vb: "validate_iso failing_shell_env ?st = (Return PyNone, ?ub)"
    using find_arch
    by (simp add: validate_iso_def compute_sha256_def and_then_def read_loop_all Let_def
        sample_state_def failing_shell_env_def sample_env_def sample_sha256_def)
  have lb: "os_type failing_shell_env = ''Linux''"
    by (simp add: failing_shell_env_def sample_env_def)
  have b1: "selected_iso_path ?ub \<noteq> []" by simp
  have b2: "dd_mode_radio ?ub" by (simp add: sample_state_def)
  have b3: "first_token (usb_device_combo ?ub) = Return ''/dev/sdb''"
    using sample_first_token by (simp add: sample_state_def)
  have bx: "execs ?ub = []"
    by (simp add: execs_def List.map_filter_def sample_state_def)
  show ?thesis
    unfolding va vb snd_conv
    using flash_usb_dd_linux [OF l a1 a2 a3] flash_usb_dd_linux [OF lb b1 b2 b3] ax as al bx
    by simp
qed

theorem mismatch_is_advisory_witness:
  "selected_iso_path application_state = ''/home/user/ubuntu-22.04-desktop-amd64.iso''
   \<and> fs application_state (selected_iso_path application_state) = Some (File ''abc'')
   \<and> sha256_hex sample_env ''abc''
       = ''ba7816bf8f01cfea414140de5dae2223b00361a396177a9cb410ff61f20015ad''
   \<and> find_os (PREDEFINED_OS application_state) (basename (selected_iso_path application_state))
       = Some (''Ubuntu'',
             \<lparr>info_url = ''https://releases.ubuntu.com/22.04/ubuntu-22.04-desktop-amd64.iso'',
              info_hash = ''dummyhash_ubuntu''\<rparr>)
   \<and> os_type sample_env = ''Linux'' \<and> dd_mode_radio application_state
   \<and> first_token (usb_device_combo application_state) = Return ''/dev/sdb''
   \<and> fst (validate_iso sample_env application_state) = Return PyNone
   \<and> execs (snd (validate_iso sample_env application_state)) = []
   \<and> execs (snd (flash_usb sample_env (snd (validate_iso sample_env application_state))))
       = [''sudo dd if=/home/user/ubuntu-22.04-desktop-amd64.iso of=/dev/sdb bs=4M status=progress && sync'']"
proof -
  let ?info = "\<lparr>info_url = ''https://releases.ubuntu.com/22.04/ubuntu-22.04-desktop-amd64.iso'',
              info_hash = ''dummyhash_ubuntu''\<rparr>"
  note s = application_fields(1)
  have a1: "selected_iso_path application_state \<noteq> []" by (simp add: s)
  have a2: "fs application_state (selected_iso_path application_state) = Some (File ''abc'')"
    by (simp add: application_fields)
  note h = sample_hash_abc
  have a3: "sha256_hex sample_env ''abc'' \<noteq> []" by (simp add: h)
  have a4: "find_os (PREDEFINED_OS application_state) (basename (selected_iso_path application_state))
              = Some (''Ubuntu'', ?info)"
    unfolding application_fields by (rule find_ubuntu)
  have a5: "sha256_hex sample_env ''abc'' \<noteq> info_hash ?info" by (simp add: h)
  have l: "os_type sample_env = ''Linux''" by (simp add: sample_env_def)
  have d: "dd_mode_radio application_state" by (simp add: application_fields)
  have t: "first_token (usb_device_combo application_state) = Return ''/dev/sdb''"
    using sample_first_token by (simp add: application_fields)
  have x: "execs application_state = []"
    by (simp add: execs_def List.map_filter_def application_fields)
  note m = mismatch_is_advisory [OF a1 a2 a3 a4 a5, of "''/dev/sdb''"]
  have v1: "fst (validate_iso sample_env application_state) = Return PyNone"
    using m [THEN conjunct1] by simp
  have v2: "execs (snd (validate_iso sample_env application_state)) = []"
    using m [THEN conjunct2, THEN conjunct1] x by simp
  have f: "execs (snd (flash_usb sample_env (snd (validate_iso sample_env application_state))))
       = [''sudo dd if=/home/user/ubuntu-22.04-desktop-amd64.iso of=/dev/sdb bs=4M status=progress && sync'']"
    using m [THEN conjunct2, THEN conjunct2] l d t x by (simp add: s)
  show ?thesis
    using v1 v2 f a2 h a4 l d t by (simp add: s)
qed

end
